theory Spec2Isabelle
  imports Main "HOL-Library.Sublist"
begin

section \<open>Text\<close>

text \<open>
  Python text is represented as \<^typ>\<open>string\<close>. \<open>str.lower\<close> is modelled on the letters
  \<open>A\<close> to \<open>Z\<close>, which is what it does on ASCII text; every keyword of the classifier is
  ASCII. \<open>keyword in prompt_lower\<close> on two strings is the substring test \<^const>\<open>sublist\<close>.
\<close>

definition lower_char :: "char \<Rightarrow> char" where
  "lower_char c =
     (case map_of (zip ''ABCDEFGHIJKLMNOPQRSTUVWXYZ'' ''abcdefghijklmnopqrstuvwxyz'') c of
        Some d \<Rightarrow> d
      | None \<Rightarrow> c)"

definition str_lower :: "string \<Rightarrow> string" where
  "str_lower s = map lower_char s"

text \<open>\<open>question.replace("'", "")\<close>: every apostrophe is dropped, nothing else changes.\<close>

definition strip_apostrophes :: "string \<Rightarrow> string" where
  "strip_apostrophes s = filter (\<lambda>c. c \<noteq> CHR 0x27) s"

text \<open>Decimal rendering of a natural number, as an f-string renders \<open>{i+1}\<close>.\<close>

fun nat_to_str :: "nat \<Rightarrow> string" where
  "nat_to_str n =
     (if n < 10 then [''0123456789'' ! n]
      else nat_to_str (n div 10) @ [''0123456789'' ! (n mod 10)])"

declare nat_to_str.simps [simp del]

text \<open>
  \<open>repr\<close> of a string, which is how an f-string renders the strings inside a list of
  dicts: single quotes unless the text has an apostrophe and no double quote; the quote
  in use and the backslash are escaped, so are tab, newline, carriage return and the
  other control characters. Characters from \<open>0x80\<close> on are kept as they are.
\<close>

definition hex2 :: "nat \<Rightarrow> string" where
  "hex2 n = [''0123456789abcdef'' ! (n div 16 mod 16), ''0123456789abcdef'' ! (n mod 16)]"

definition repr_char :: "char \<Rightarrow> char \<Rightarrow> string" where
  "repr_char q c =
     (if c = q \<or> c = CHR 0x5C then [CHR 0x5C, c]
      else if c = CHR 0x09 then [CHR 0x5C, CHR ''t'']
      else if c = CHR 0x0A then [CHR 0x5C, CHR ''n'']
      else if c = CHR 0x0D then [CHR 0x5C, CHR ''r'']
      else if (of_char c :: nat) < 32 \<or> (of_char c :: nat) = 127
        then [CHR 0x5C, CHR ''x''] @ hex2 (of_char c)
      else [c])"

definition py_repr :: "string \<Rightarrow> string" where
  "py_repr s =
     (let q = (if CHR 0x27 \<in> set s \<and> CHR 0x22 \<notin> set s then CHR 0x22 else CHR 0x27)
      in [q] @ concat (map (repr_char q) s) @ [q])"

fun join_comma :: "string list \<Rightarrow> string" where
  "join_comma [] = []"
| "join_comma [x] = x"
| "join_comma (x # y # ys) = x @ '', '' @ join_comma (y # ys)"

section \<open>Data\<close>

text \<open>A chat message is the dict \<open>{"role": ..., "content": ...}\<close>.\<close>

record message =
  role :: string
  content :: string

text \<open>One entry of \<open>service_metadata\<close>: \<open>{"name": ..., "search_column": ...}\<close>.\<close>

record service_descriptor =
  name :: string
  search_column :: string

text \<open>
  \<open>st.session_state\<close>. The keys \<open>messages\<close>, \<open>service_metadata\<close> and
  \<open>selected_cortex_search_service\<close> are absent until the script sets them and are
  optional here; the other keys belong to the sidebar widgets, which set them on every
  run of the script before anything reads them.
\<close>

record session_state =
  messages :: "message list option"
  service_metadata :: "service_descriptor list option"
  selected_cortex_search_service :: "string option"
  clear_conversation :: bool
  debug :: bool
  use_chat_history :: bool
  model_name :: string
  num_retrieved_chunks :: int
  num_chat_messages :: int

text \<open>
  What the script raises. \<open>ValueError\<close> is the \<open>raise\<close> of
  \<open>query_cortex_search_service\<close>; \<open>IndexError\<close>, \<open>KeyError\<close> and \<open>AttributeError\<close> come
  from indexing and from reading an absent key; \<open>PlatformError\<close> is any exception raised
  inside a call to the Snowflake session or to a Cortex search service.
\<close>

datatype error =
  ValueError string
| IndexError
| KeyError string
| AttributeError string
| PlatformError string

text \<open>A row of a query result or of a search result: its columns, in order, with their values.\<close>

type_synonym row = "(string \<times> string) list"

text \<open>
  A request sent to the platform: a SQL statement with its bind parameters, or a search
  on a Cortex search service (database, schema, service, query, limit).
\<close>

datatype call =
  Sql string "string list"
| Search string string string string int

text \<open>
  The platform behind \<open>session\<close> and \<open>root\<close>. It is outside the script, so it is a
  parameter: what it answers may depend on every request made before, and each request
  either raises (\<open>Inl\<close>, with the exception's text) or returns rows.
\<close>

record platform =
  current_database :: string
  current_schema :: string
  sql_collect :: "call list \<Rightarrow> string \<Rightarrow> string list \<Rightarrow> string + row list"
  search_results :: "call list \<Rightarrow> string \<Rightarrow> string \<Rightarrow> int \<Rightarrow> string + row list"

text \<open>
  The state a run of the script works on: the session state, and the requests sent to the
  platform so far, oldest first. Rendering (\<open>st.markdown\<close>, the sidebar's debug areas) is
  not part of it.
\<close>

record world =
  st :: session_state
  calls :: "call list"

section \<open>Python's indexing\<close>

definition row_get :: "row \<Rightarrow> string \<Rightarrow> error + string" where
  "row_get r k = (case map_of r k of None \<Rightarrow> Inl (KeyError k) | Some v \<Rightarrow> Inr v)"

text \<open>\<open>xs[i:j]\<close>: a negative bound counts from the end, and both are clamped to the list.\<close>

definition py_slice :: "'a list \<Rightarrow> int \<Rightarrow> int \<Rightarrow> 'a list" where
  "py_slice xs i j =
     (let n = int (length xs);
          a = (if i < 0 then max 0 (i + n) else min i n);
          b = (if j < 0 then max 0 (j + n) else min j n)
      in take (nat (b - a)) (drop (nat a) xs))"

section \<open>Constants\<close>

definition STRUCTURED_KEYWORDS :: "string list" where
  "STRUCTURED_KEYWORDS =
     [''nasdaq traded'', ''symbol'', ''security name'', ''listing exchange'',
      ''market category'', ''etf'', ''round lot size'', ''test issue'',
      ''financial status'', ''cqs symbol'', ''nasdaq symbol'', ''nextshares'']"

definition STRUCTURED_SERVICE :: string where
  "STRUCTURED_SERVICE = ''stock_market_service''"

definition UNSTRUCTURED_SERVICE :: string where
  "UNSTRUCTURED_SERVICE = ''prospectus_service''"

section \<open>Initialisation\<close>

definition init_messages :: "session_state \<Rightarrow> session_state" where
  "init_messages s =
     (if clear_conversation s \<or> messages s = None then s\<lparr>messages := Some []\<rparr> else s)"

text \<open>\<open>session.sql(text, params).collect()\<close>: the request is recorded, then it raises or returns.\<close>

definition run_sql :: "platform \<Rightarrow> string \<Rightarrow> string list \<Rightarrow> world \<Rightarrow> (error + row list) \<times> world" where
  "run_sql p text params w =
     ((case sql_collect p (calls w) text params of
         Inl x \<Rightarrow> Inl (PlatformError x)
       | Inr rows \<Rightarrow> Inr rows),
      w\<lparr>calls := calls w @ [Sql text params]\<rparr>)"

text \<open>The \<open>for s in services\<close> loop of \<open>init_service_metadata\<close>.\<close>

fun describe_services ::
  "platform \<Rightarrow> row list \<Rightarrow> service_descriptor list \<Rightarrow> world \<Rightarrow>
   (error + service_descriptor list) \<times> world" where
  "describe_services p [] metadata w = (Inr metadata, w)"
| "describe_services p (s # rest) metadata w =
     (case row_get s ''name'' of
        Inl e \<Rightarrow> (Inl e, w)
      | Inr svc_name \<Rightarrow>
          (case run_sql p (''DESC CORTEX SEARCH SERVICE '' @ svc_name @ '';'') [] w of
             (Inl e, w1) \<Rightarrow> (Inl e, w1)
           | (Inr [], w1) \<Rightarrow> (Inl IndexError, w1)
           | (Inr (r # _), w1) \<Rightarrow>
               (case row_get r ''search_column'' of
                  Inl e \<Rightarrow> (Inl e, w1)
                | Inr svc_search_col \<Rightarrow>
                    describe_services p rest
                      (metadata @ [\<lparr>name = svc_name, search_column = svc_search_col\<rparr>])
                      w1)))"

definition init_service_metadata :: "platform \<Rightarrow> world \<Rightarrow> (error + unit) \<times> world" where
  "init_service_metadata p w =
     (if service_metadata (st w) \<noteq> None then (Inr (), w)
      else
        (case run_sql p ''SHOW CORTEX SEARCH SERVICES;'' [] w of
           (Inl e, w1) \<Rightarrow> (Inl e, w1)
         | (Inr services, w1) \<Rightarrow>
             (case describe_services p services [] w1 of
                (Inl e, w2) \<Rightarrow> (Inl e, w2)
              | (Inr md, w2) \<Rightarrow> (Inr (), w2\<lparr>st := (st w2)\<lparr>service_metadata := Some md\<rparr>\<rparr>))))"

section \<open>The classifier\<close>

text \<open>The \<open>for keyword in STRUCTURED_KEYWORDS\<close> loop: it returns at the first keyword found.\<close>

fun classify_loop :: "string list \<Rightarrow> string \<Rightarrow> string" where
  "classify_loop [] prompt_lower = ''unstructured''"
| "classify_loop (keyword # rest) prompt_lower =
     (if sublist keyword prompt_lower then ''structured'' else classify_loop rest prompt_lower)"

definition classify_prompt :: "string \<Rightarrow> string" where
  "classify_prompt prompt = classify_loop STRUCTURED_KEYWORDS (str_lower prompt)"

section \<open>Retrieval\<close>

text \<open>
  \<open>cortex_search_service.search(query, columns=[], limit=...)\<close> on the service of that name
  in the current database and schema: the request is recorded, then it raises or returns
  its \<open>results\<close>.
\<close>

definition run_search ::
  "platform \<Rightarrow> string \<Rightarrow> string \<Rightarrow> int \<Rightarrow> world \<Rightarrow> (error + row list) \<times> world" where
  "run_search p service_name query limit w =
     ((case search_results p (calls w) service_name query limit of
         Inl x \<Rightarrow> Inl (PlatformError x)
       | Inr results \<Rightarrow> Inr results),
      w\<lparr>calls := calls w @
         [Search (current_database p) (current_schema p) service_name query limit]\<rparr>)"

text \<open>The \<open>for i, r in enumerate(results)\<close> loop; \<open>r[search_col]\<close> raises on a missing column.\<close>

fun format_context :: "string \<Rightarrow> row list \<Rightarrow> nat \<Rightarrow> string \<Rightarrow> error + string" where
  "format_context search_col [] i context_str = Inr context_str"
| "format_context search_col (r # rest) i context_str =
     (case row_get r search_col of
        Inl e \<Rightarrow> Inl e
      | Inr v \<Rightarrow>
          format_context search_col rest (Suc i)
            (context_str @ ''Context document '' @ nat_to_str (i + 1) @ '': '' @ v
               @ ''\<newline>\<newline>''))"

definition selected_service :: "string \<Rightarrow> string" where
  "selected_service query =
     (if classify_prompt query = ''structured'' then STRUCTURED_SERVICE
      else UNSTRUCTURED_SERVICE)"

definition not_found_message :: "string \<Rightarrow> string" where
  "not_found_message service_name =
     ''Search service '' @ [CHR 0x27] @ service_name @ [CHR 0x27]
       @ '' not found in service metadata.''"

definition query_cortex_search_service ::
  "platform \<Rightarrow> string \<Rightarrow> world \<Rightarrow> (error + string) \<times> world" where
  "query_cortex_search_service p query w =
     (let service_name = selected_service query;
          w1 = w\<lparr>st := (st w)\<lparr>selected_cortex_search_service := Some service_name\<rparr>\<rparr>
      in case run_search p service_name query (num_retrieved_chunks (st w1)) w1 of
           (Inl e, w2) \<Rightarrow> (Inl e, w2)
         | (Inr results, w2) \<Rightarrow>
             (case service_metadata (st w2) of
                None \<Rightarrow> (Inl (AttributeError ''service_metadata''), w2)
              | Some md \<Rightarrow>
                  (case map search_column
                          (filter (\<lambda>s. str_lower (name s) = str_lower service_name) md) of
                     [] \<Rightarrow> (Inl (ValueError (not_found_message service_name)), w2)
                   | search_col # _ \<Rightarrow> (format_context search_col results 0 [], w2))))"

section \<open>Chat history and completion\<close>

definition get_chat_history :: "session_state \<Rightarrow> error + message list" where
  "get_chat_history s =
     (case messages s of
        None \<Rightarrow> Inl (AttributeError ''messages'')
      | Some ms \<Rightarrow>
          (let start_index = max 0 (int (length ms) - num_chat_messages s)
           in Inr (py_slice ms start_index (int (length ms) - 1))))"

text \<open>\<open>session.sql(..., (model, prompt)).collect()[0][0]\<close>.\<close>

definition complete :: "platform \<Rightarrow> string \<Rightarrow> string \<Rightarrow> world \<Rightarrow> (error + string) \<times> world" where
  "complete p model prompt w =
     (case run_sql p ''SELECT snowflake.cortex.complete(?, ?)'' [model, prompt] w of
        (Inl e, w1) \<Rightarrow> (Inl e, w1)
      | (Inr [], w1) \<Rightarrow> (Inl IndexError, w1)
      | (Inr (r # _), w1) \<Rightarrow>
          (case r of [] \<Rightarrow> (Inl IndexError, w1) | cell # _ \<Rightarrow> (Inr (snd cell), w1)))"

text \<open>How an f-string renders the list of messages: \<open>str\<close> of a list of dicts.\<close>

definition str_message :: "message \<Rightarrow> string" where
  "str_message m =
     ''{'' @ py_repr ''role'' @ '': '' @ py_repr (role m) @ '', ''
       @ py_repr ''content'' @ '': '' @ py_repr (content m) @ ''}''"

definition str_messages :: "message list \<Rightarrow> string" where
  "str_messages ms = ''['' @ join_comma (map str_message ms) @ '']''"

text \<open>The f-string of \<open>make_chat_history_summary\<close>.\<close>

definition summary_prompt :: "string \<Rightarrow> string \<Rightarrow> string" where
  "summary_prompt chat_history question =
     ''\<newline>''
     @ ''        [INST]\<newline>''
     @ ''        Based on the chat history below and the question, generate a query that extend the question\<newline>''
     @ ''        with the chat history provided. The query should be in natural language.\<newline>''
     @ ''        Answer with only the query. Do not add any explanation.\<newline>''
     @ ''\<newline>''
     @ ''        <chat_history>\<newline>''
     @ ''        '' @ chat_history @ ''\<newline>''
     @ ''        </chat_history>\<newline>''
     @ ''        <question>\<newline>''
     @ ''        '' @ question @ ''\<newline>''
     @ ''        </question>\<newline>''
     @ ''        [/INST]\<newline>''
     @ ''    ''"

definition make_chat_history_summary ::
  "platform \<Rightarrow> message list \<Rightarrow> string \<Rightarrow> world \<Rightarrow> (error + string) \<times> world" where
  "make_chat_history_summary p chat_history question w =
     complete p (model_name (st w)) (summary_prompt (str_messages chat_history) question) w"

section \<open>The prompt\<close>

text \<open>
  The f-string of \<open>create_prompt\<close>, in three parts: the instructions, down to the indentation
  before the history slot; the three sections; the closing lines after the question slot.
\<close>

definition prompt_instructions :: string where
  "prompt_instructions =
     ''\<newline>''
     @ ''        [INST]\<newline>''
     @ ''        You are a helpful AI chat assistant with RAG capabilities. When a user asks you a question,\<newline>''
     @ ''        you will also be given context provided between <context> and </context> tags. Use that context\<newline>''
     @ ''        with the user's chat history provided in the between <chat_history> and </chat_history> tags\<newline>''
     @ ''        to provide a summary that addresses the user's question. Ensure the answer is coherent, concise,\<newline>''
     @ ''        and directly relevant to the user's question.\<newline>''
     @ ''\<newline>''
     @ ''        If the user asks a generic question which cannot be answered with the given context or chat_history,\<newline>''
     @ ''        just say \"I don't know the answer to that question.\"\<newline>''
     @ ''\<newline>''
     @ ''        Don't say things like \"according to the provided context\".\<newline>''
     @ ''\<newline>''"

definition prompt_closing :: string where
  "prompt_closing =
     ''        [/INST]\<newline>''
     @ ''        Answer:\<newline>''
     @ ''    ''"

definition prompt_section :: "string \<Rightarrow> string \<Rightarrow> string" where
  "prompt_section tag body =
     ''        <'' @ tag @ ''>\<newline>''
     @ ''        '' @ body @ ''\<newline>''
     @ ''        </'' @ tag @ ''>\<newline>''"

definition prompt_text :: "string \<Rightarrow> string \<Rightarrow> string \<Rightarrow> string" where
  "prompt_text chat_history prompt_context user_question =
     prompt_instructions
     @ prompt_section ''chat_history'' chat_history
     @ prompt_section ''context'' prompt_context
     @ prompt_section ''question'' user_question
     @ prompt_closing"

definition create_prompt :: "platform \<Rightarrow> string \<Rightarrow> world \<Rightarrow> (error + string) \<times> world" where
  "create_prompt p user_question w =
     (if use_chat_history (st w) then
        (case get_chat_history (st w) of
           Inl e \<Rightarrow> (Inl e, w)
         | Inr chat_history \<Rightarrow>
             (if chat_history \<noteq> [] then
                (case make_chat_history_summary p chat_history user_question w of
                   (Inl e, w1) \<Rightarrow> (Inl e, w1)
                 | (Inr question_summary, w1) \<Rightarrow>
                     (case query_cortex_search_service p question_summary w1 of
                        (Inl e, w2) \<Rightarrow> (Inl e, w2)
                      | (Inr prompt_context, w2) \<Rightarrow>
                          (Inr (prompt_text (str_messages chat_history) prompt_context
                                  user_question), w2)))
              else
                (case query_cortex_search_service p user_question w of
                   (Inl e, w2) \<Rightarrow> (Inl e, w2)
                 | (Inr prompt_context, w2) \<Rightarrow>
                     (Inr (prompt_text (str_messages chat_history) prompt_context
                             user_question), w2))))
      else
        (case query_cortex_search_service p user_question w of
           (Inl e, w2) \<Rightarrow> (Inl e, w2)
         | (Inr prompt_context, w2) \<Rightarrow>
             (Inr (prompt_text [] prompt_context user_question), w2)))"

section \<open>The script\<close>

text \<open>\<open>st.session_state.messages.append(m)\<close>; reading the key raises when it is absent.\<close>

definition append_message :: "message \<Rightarrow> world \<Rightarrow> (error + unit) \<times> world" where
  "append_message m w =
     (case messages (st w) of
        None \<Rightarrow> (Inl (AttributeError ''messages''), w)
      | Some ms \<Rightarrow> (Inr (), w\<lparr>st := (st w)\<lparr>messages := Some (ms @ [m])\<rparr>\<rparr>))"

text \<open>
  The body of \<open>if question := st.chat_input(...)\<close> in \<open>main\<close>: one turn, for the text the user
  submitted.
\<close>

definition main_turn :: "platform \<Rightarrow> string \<Rightarrow> world \<Rightarrow> (error + unit) \<times> world" where
  "main_turn p question w =
     (case append_message \<lparr>role = ''user'', content = question\<rparr> w of
        (Inl e, w1) \<Rightarrow> (Inl e, w1)
      | (Inr _, w1) \<Rightarrow>
          (let question' = strip_apostrophes question in
           case create_prompt p question' w1 of
             (Inl e, w2) \<Rightarrow> (Inl e, w2)
           | (Inr prompt, w2) \<Rightarrow>
               (case complete p (model_name (st w1)) prompt w2 of
                  (Inl e, w3) \<Rightarrow> (Inl e, w3)
                | (Inr generated_response, w3) \<Rightarrow>
                    append_message \<lparr>role = ''assistant'', content = generated_response\<rparr> w3)))"

text \<open>
  What the user has set in the sidebar and typed into the chat input when a run of the
  script starts: the button is true on the run its click triggers.
\<close>

record widgets =
  clear_conversation_button :: bool
  debug_toggle :: bool
  use_chat_history_toggle :: bool
  model_name_select :: string
  num_retrieved_chunks_input :: int
  num_chat_messages_input :: int
  chat_input :: "string option"

definition init_config_options :: "widgets \<Rightarrow> session_state \<Rightarrow> session_state" where
  "init_config_options ui s =
     s\<lparr>clear_conversation := clear_conversation_button ui,
       debug := debug_toggle ui,
       use_chat_history := use_chat_history_toggle ui,
       model_name := model_name_select ui,
       num_retrieved_chunks := num_retrieved_chunks_input ui,
       num_chat_messages := num_chat_messages_input ui\<rparr>"

definition main :: "platform \<Rightarrow> widgets \<Rightarrow> world \<Rightarrow> (error + unit) \<times> world" where
  "main p ui w =
     (case init_service_metadata p w of
        (Inl e, w1) \<Rightarrow> (Inl e, w1)
      | (Inr _, w1) \<Rightarrow>
          (let w2 = w1\<lparr>st := init_messages (init_config_options ui (st w1))\<rparr>;
               disable_chat =
                 (case service_metadata (st w2) of None \<Rightarrow> True | Some md \<Rightarrow> length md = 0)
           in case (if disable_chat then None else chat_input ui) of
                None \<Rightarrow> (Inr (), w2)
              | Some question \<Rightarrow>
                  (if question = [] then (Inr (), w2) else main_turn p question w2)))"

section \<open>Counting the sections of a prompt\<close>




section \<open>Example inputs\<close>

text \<open>
  A platform with two search services whose every search returns two documents and whose
  every completion returns the same text; the same platform with its search services
  down; a session that has discovered only the prospectus service.
\<close>

definition demo_platform :: platform where
  "demo_platform =
     \<lparr>current_database = ''FINANCE_DB'',
      current_schema = ''PUBLIC'',
      sql_collect = (\<lambda>cs text params.
        if text = ''SHOW CORTEX SEARCH SERVICES;''
          then Inr [[(''name'', ''PROSPECTUS_SERVICE'')], [(''name'', ''STOCK_MARKET_SERVICE'')]]
        else if prefix ''DESC'' text then Inr [[(''search_column'', ''chunk'')]]
        else Inr [[(''COMPLETE(?, ?)'', ''an answer'')]]),
      search_results = (\<lambda>cs service_name query limit.
        Inr [[(''chunk'', ''first document'')], [(''chunk'', ''second document'')]])\<rparr>"

definition unreachable_platform :: platform where
  "unreachable_platform =
     demo_platform\<lparr>search_results := (\<lambda>cs service_name query limit. Inl ''service unavailable'')\<rparr>"

definition demo_state :: session_state where
  "demo_state =
     \<lparr>messages = Some [],
      service_metadata = Some [\<lparr>name = ''PROSPECTUS_SERVICE'', search_column = ''chunk''\<rparr>],
      selected_cortex_search_service = None,
      clear_conversation = False,
      debug = False,
      use_chat_history = True,
      model_name = ''mistral-large'',
      num_retrieved_chunks = 5,
      num_chat_messages = 5\<rparr>"

definition demo_world :: world where
  "demo_world = \<lparr>st = demo_state, calls = []\<rparr>"

text \<open>
  A session in which one turn has been made and the clear button has just been clicked; a
  session at its first run, before discovery.
\<close>

definition chatted_state :: session_state where
  "chatted_state =
     demo_state\<lparr>messages := Some [\<lparr>role = ''user'', content = ''hello''\<rparr>,
                                  \<lparr>role = ''assistant'', content = ''an answer''\<rparr>],
                clear_conversation := True\<rparr>"

definition fresh_world :: world where
  "fresh_world = \<lparr>st = demo_state\<lparr>messages := None, service_metadata := None\<rparr>, calls = []\<rparr>"






section \<open>The classifier's result\<close>

lemma classify_loop_iff:
  "classify_loop ks s =
     (if \<exists>k \<in> set ks. sublist k s then ''structured'' else ''unstructured'')"
  by (induction ks) auto

lemma str_lower_example:
  "str_lower ''What is the Symbol for Apple?'' = ''what is the symbol for apple?''"
  by (simp add: str_lower_def lower_char_def)

text \<open>
  C2. \<open>classify_prompt\<close> returns \<open>structured\<close> exactly when the lowercased query has one of
  the structured keywords as a substring, and \<open>unstructured\<close> exactly when it has none; it
  returns one of the two for every query, and \<open>unstructured\<close> for the empty query. (The loop
  returns at the first keyword found; which keyword that was does not show in the result.)
\<close>

theorem classify_prompt_spec:
  "(classify_prompt q = ''structured'' \<longleftrightarrow>
      (\<exists>k \<in> set STRUCTURED_KEYWORDS. sublist k (str_lower q)))
   \<and> (classify_prompt q = ''unstructured'' \<longleftrightarrow>
      \<not> (\<exists>k \<in> set STRUCTURED_KEYWORDS. sublist k (str_lower q)))
   \<and> (classify_prompt q = ''structured'' \<or> classify_prompt q = ''unstructured'')
   \<and> classify_prompt [] = ''unstructured''"
proof -
  have empty: "\<not> (\<exists>k \<in> set STRUCTURED_KEYWORDS. sublist k (str_lower []))"
    by (simp add: STRUCTURED_KEYWORDS_def str_lower_def)
  show ?thesis
    unfolding classify_prompt_def classify_loop_iff using empty by simp
qed

theorem classify_prompt_spec_witness:
  "classify_prompt ''What is the Symbol for Apple?'' = ''structured''
   \<and> classify_prompt ''Summarize the risk factors section'' = ''unstructured''"
proof -
  have "sublist ''symbol'' (str_lower ''What is the Symbol for Apple?'')"
    unfolding str_lower_example by (simp add: sublist_code)
  then have a: "\<exists>k \<in> set STRUCTURED_KEYWORDS.
      sublist k (str_lower ''What is the Symbol for Apple?'')"
    by (simp add: STRUCTURED_KEYWORDS_def)
  have b: "\<not> (\<exists>k \<in> set STRUCTURED_KEYWORDS.
      sublist k (str_lower ''Summarize the risk factors section''))"
    by (simp add: STRUCTURED_KEYWORDS_def str_lower_def lower_char_def sublist_code)
  from a b classify_prompt_spec [of "''What is the Symbol for Apple?''"]
    classify_prompt_spec [of "''Summarize the risk factors section''"]
  show ?thesis by blast
qed

section \<open>What each operation changes\<close>

lemma run_sql_effect:
  "run_sql p text params w = (r, w') \<Longrightarrow> st w' = st w \<and> calls w' = calls w @ [Sql text params]"
  by (auto simp: run_sql_def)

lemma run_search_effect:
  "run_search p service_name query limit w = (r, w') \<Longrightarrow>
   st w' = st w \<and>
   calls w' = calls w @ [Search (current_database p) (current_schema p) service_name query limit]"
  by (auto simp: run_search_def)

lemma complete_effect:
  "complete p model prompt w = (r, w') \<Longrightarrow>
   st w' = st w \<and> calls w' = calls w @ [Sql ''SELECT snowflake.cortex.complete(?, ?)'' [model, prompt]]"
  by (auto simp: complete_def run_sql_def split: sum.splits list.splits)

lemma query_effect:
  "query_cortex_search_service p query w = (r, w') \<Longrightarrow>
   st w' = (st w)\<lparr>selected_cortex_search_service := Some (selected_service query)\<rparr> \<and>
   calls w' = calls w @
     [Search (current_database p) (current_schema p) (selected_service query) query
        (num_retrieved_chunks (st w))]"
  by (auto simp: query_cortex_search_service_def run_search_def Let_def
           split: sum.splits list.splits option.splits)

lemma summary_effect:
  "make_chat_history_summary p chat_history question w = (r, w') \<Longrightarrow>
   st w' = st w \<and>
   calls w' = calls w @ [Sql ''SELECT snowflake.cortex.complete(?, ?)''
       [model_name (st w), summary_prompt (str_messages chat_history) question]]"
  unfolding make_chat_history_summary_def by (rule complete_effect)

lemma create_prompt_messages:
  assumes "create_prompt p user_question w = (r, w')"
  shows "messages (st w') = messages (st w)"
  using assms
  by (auto simp: create_prompt_def split: if_splits sum.splits prod.splits
           dest!: query_effect summary_effect)

section \<open>The message log over a turn\<close>

lemma classify_hello: "classify_prompt ''hello'' = ''unstructured''"
  by (simp add: classify_prompt_def STRUCTURED_KEYWORDS_def str_lower_def lower_char_def sublist_code)

lemma failed_turn:
  "main_turn unreachable_platform ''hello'' demo_world =
     (Inl (PlatformError ''service unavailable''),
      \<lparr>st = demo_state\<lparr>messages := Some [\<lparr>role = ''user'', content = ''hello''\<rparr>],
                       selected_cortex_search_service := Some ''prospectus_service''\<rparr>,
       calls = [Search ''FINANCE_DB'' ''PUBLIC'' ''prospectus_service'' ''hello'' 5]\<rparr>)"
  by (simp add: main_turn_def append_message_def demo_world_def demo_state_def
      strip_apostrophes_def create_prompt_def get_chat_history_def py_slice_def Let_def
      query_cortex_search_service_def selected_service_def classify_hello
      UNSTRUCTURED_SERVICE_def run_search_def unreachable_platform_def demo_platform_def)

lemma successful_turn:
  "fst (main_turn demo_platform ''hello'' demo_world) = Inr ()"
  by (simp add: main_turn_def append_message_def demo_world_def demo_state_def
      strip_apostrophes_def create_prompt_def get_chat_history_def py_slice_def Let_def
      query_cortex_search_service_def selected_service_def classify_hello
      UNSTRUCTURED_SERVICE_def run_search_def demo_platform_def
      str_lower_def lower_char_def row_get_def complete_def run_sql_def)

text \<open>
  C1 (as amended). The user message is appended before the pipeline runs and the assistant
  reply after the final completion has returned. So a turn that succeeds leaves the log as
  it was, followed by the user message and then the reply; a turn that fails at any stage
  leaves the log as it was, followed by the user message alone.
\<close>

theorem main_turn_log:
  assumes log: "messages (st w) = Some ms"
    and turn: "main_turn p question w = (r, w')"
  shows "(\<exists>reply. r = Inr () \<and>
            messages (st w') =
              Some (ms @ [\<lparr>role = ''user'', content = question\<rparr>,
                          \<lparr>role = ''assistant'', content = reply\<rparr>]))
         \<or> (\<exists>e. r = Inl e \<and>
            messages (st w') = Some (ms @ [\<lparr>role = ''user'', content = question\<rparr>]))"
proof -
  let ?u = "\<lparr>role = ''user'', content = question\<rparr>"
  let ?w1 = "w\<lparr>st := (st w)\<lparr>messages := Some (ms @ [?u])\<rparr>\<rparr>"
  have first: "append_message ?u w = (Inr (), ?w1)"
    using log by (simp add: append_message_def)
  obtain r2 w2 where cp: "create_prompt p (strip_apostrophes question) ?w1 = (r2, w2)"
    by (cases "create_prompt p (strip_apostrophes question) ?w1")
  have m2: "messages (st w2) = Some (ms @ [?u])"
    using create_prompt_messages [OF cp] by simp
  show ?thesis
  proof (cases r2)
    case (Inl e)
    with first cp turn have "r = Inl e" and "w' = w2"
      by (simp_all add: main_turn_def)
    with m2 show ?thesis by simp
  next
    case (Inr prompt)
    obtain r3 w3 where co: "complete p (model_name (st ?w1)) prompt w2 = (r3, w3)"
      by (cases "complete p (model_name (st ?w1)) prompt w2")
    have m3: "messages (st w3) = Some (ms @ [?u])"
      using complete_effect [OF co] m2 by simp
    show ?thesis
    proof (cases r3)
      case (Inl e)
      with first cp Inr co turn have "r = Inl e" and "w' = w3"
        by (simp_all add: main_turn_def)
      with m3 show ?thesis by simp
    next
      case reply: (Inr generated_response)
      with first cp Inr co turn m3
      have "r = Inr ()"
        and "w' = w3\<lparr>st := (st w3)\<lparr>messages :=
               Some ((ms @ [?u]) @ [\<lparr>role = ''assistant'', content = generated_response\<rparr>])\<rparr>\<rparr>"
        by (simp_all add: main_turn_def append_message_def)
      then show ?thesis by simp
    qed
  qed
qed

text \<open>
  C1 as stated fails: with the search services down the turn raises, and the log has
  gained the user message.
\<close>

theorem failed_turn_keeps_user_message:
  "fst (main_turn unreachable_platform ''hello'' demo_world) = Inl (PlatformError ''service unavailable'')
   \<and> messages (st demo_world) = Some []
   \<and> messages (st (snd (main_turn unreachable_platform ''hello'' demo_world)))
       = Some [\<lparr>role = ''user'', content = ''hello''\<rparr>]
   \<and> messages (st (snd (main_turn unreachable_platform ''hello'' demo_world))) \<noteq> messages (st demo_world)"
  unfolding failed_turn by (simp add: demo_world_def demo_state_def)

text \<open>A turn that succeeds, on an empty log.\<close>

theorem main_turn_log_witness:
  "messages (st demo_world) = Some []
   \<and> (\<exists>reply. messages (st (snd (main_turn demo_platform ''hello'' demo_world)))
       = Some [\<lparr>role = ''user'', content = ''hello''\<rparr>, \<lparr>role = ''assistant'', content = reply\<rparr>])"
proof -
  have log: "messages (st demo_world) = Some []"
    by (simp add: demo_world_def demo_state_def)
  have turn: "main_turn demo_platform ''hello'' demo_world =
      (fst (main_turn demo_platform ''hello'' demo_world),
       snd (main_turn demo_platform ''hello'' demo_world))"
    by simp
  from main_turn_log [OF log turn] show ?thesis
    using log successful_turn by simp
qed

section \<open>A service missing from the metadata\<close>

lemma format_context_error:
  "format_context search_col results i context_str = Inl e \<Longrightarrow> \<exists>k. e = KeyError k"
  by (induction results arbitrary: i context_str)
     (auto simp: row_get_def split: option.splits sum.splits)

lemma filter_empty_iff_absent:
  "(map search_column (filter (\<lambda>s. str_lower (name s) = str_lower service_name) md) = [])
   \<longleftrightarrow> \<not> (\<exists>s \<in> set md. str_lower (name s) = str_lower service_name)"
  by (auto simp: filter_empty_conv)

lemma classify_etf: "classify_prompt ''etf'' = ''structured''"
  by (simp add: classify_prompt_def STRUCTURED_KEYWORDS_def str_lower_def lower_char_def sublist_code)

lemma stock_market_service_absent:
  "\<not> (\<exists>s \<in> set [\<lparr>name = ''PROSPECTUS_SERVICE'', search_column = ''chunk''\<rparr>].
        str_lower (name s) = str_lower (selected_service ''etf''))"
  by (simp add: selected_service_def classify_etf STRUCTURED_SERVICE_def str_lower_def lower_char_def)

text \<open>
  C4 (as amended). The search request is sent before the metadata is consulted. When the
  platform answers it, \<open>query_cortex_search_service\<close> raises the not-found error exactly when
  no descriptor has the selected name, compared in lower case; when the request itself
  raises, that exception is what the caller sees (the last conjunct: the result is the
  platform's error, whatever the metadata holds). Either way the not-found error is raised
  only for a missing name, and for a missing name no context is ever returned.
\<close>

theorem query_not_found:
  assumes md: "service_metadata (st w) = Some md"
    and run: "query_cortex_search_service p query w = (r, w')"
  shows "(r = Inl (ValueError (not_found_message (selected_service query))) \<longrightarrow>
            \<not> (\<exists>s \<in> set md. str_lower (name s) = str_lower (selected_service query)))
       \<and> (\<not> (\<exists>s \<in> set md. str_lower (name s) = str_lower (selected_service query)) \<longrightarrow>
            (\<exists>e. r = Inl e))
       \<and> (\<forall>results.
            search_results p (calls w) (selected_service query) query
              (num_retrieved_chunks (st w)) = Inr results \<longrightarrow>
            (r = Inl (ValueError (not_found_message (selected_service query))) \<longleftrightarrow>
             \<not> (\<exists>s \<in> set md. str_lower (name s) = str_lower (selected_service query))))
       \<and> (\<forall>x.
            search_results p (calls w) (selected_service query) query
              (num_retrieved_chunks (st w)) = Inl x \<longrightarrow>
            r = Inl (PlatformError x))"
proof -
  let ?sn = "selected_service query"
  let ?cols = "map search_column (filter (\<lambda>s. str_lower (name s) = str_lower ?sn) md)"
  let ?absent = "\<not> (\<exists>s \<in> set md. str_lower (name s) = str_lower ?sn)"
  have abs: "?cols = [] \<longleftrightarrow> ?absent"
    by (rule filter_empty_iff_absent)
  show ?thesis
  proof (cases "search_results p (calls w) ?sn query (num_retrieved_chunks (st w))")
    case (Inl x)
    with run have "r = Inl (PlatformError x)"
      by (simp add: query_cortex_search_service_def run_search_def Let_def)
    with Inl show ?thesis by simp
  next
    case (Inr results)
    show ?thesis
    proof (cases ?cols)
      case Nil
      with run md Inr have "r = Inl (ValueError (not_found_message ?sn))"
        by (simp add: query_cortex_search_service_def run_search_def Let_def)
      with Nil abs Inr show ?thesis by simp
    next
      case (Cons search_col rest)
      with run md Inr have r: "r = format_context search_col results 0 []"
        by (simp add: query_cortex_search_service_def run_search_def Let_def)
      have "r \<noteq> Inl (ValueError (not_found_message ?sn))"
        using format_context_error [of search_col results 0 "[]"] r by auto
      moreover from Cons abs have "\<not> ?absent" by simp
      ultimately show ?thesis using Inr by simp
    qed
  qed
qed

text \<open>
  C4 as stated fails: the stock market service is missing from the metadata, the search
  request raises, and the error is the platform's, not the not-found error.
\<close>

theorem query_not_found_counterexample:
  "service_metadata (st demo_world) = Some [\<lparr>name = ''PROSPECTUS_SERVICE'', search_column = ''chunk''\<rparr>]
   \<and> \<not> (\<exists>s \<in> set [\<lparr>name = ''PROSPECTUS_SERVICE'', search_column = ''chunk''\<rparr>].
        str_lower (name s) = str_lower (selected_service ''etf''))
   \<and> fst (query_cortex_search_service unreachable_platform ''etf'' demo_world)
       = Inl (PlatformError ''service unavailable'')
   \<and> fst (query_cortex_search_service unreachable_platform ''etf'' demo_world)
       \<noteq> Inl (ValueError (not_found_message (selected_service ''etf'')))"
proof -
  have "fst (query_cortex_search_service unreachable_platform ''etf'' demo_world)
       = Inl (PlatformError ''service unavailable'')"
    by (simp add: query_cortex_search_service_def run_search_def Let_def
        unreachable_platform_def demo_platform_def)
  with stock_market_service_absent show ?thesis
    by (simp add: demo_world_def demo_state_def)
qed

text \<open>
  With the platform answering, the same query raises the not-found error; with the search
  services down, the platform's exception is the result.
\<close>

theorem query_not_found_witness:
  "service_metadata (st demo_world) = Some [\<lparr>name = ''PROSPECTUS_SERVICE'', search_column = ''chunk''\<rparr>]
   \<and> fst (query_cortex_search_service demo_platform ''etf'' demo_world)
       = Inl (ValueError (not_found_message (selected_service ''etf'')))
   \<and> fst (query_cortex_search_service unreachable_platform ''etf'' demo_world)
       = Inl (PlatformError ''service unavailable'')"
proof -
  have md: "service_metadata (st demo_world) =
      Some [\<lparr>name = ''PROSPECTUS_SERVICE'', search_column = ''chunk''\<rparr>]"
    by (simp add: demo_world_def demo_state_def)
  have run: "query_cortex_search_service demo_platform ''etf'' demo_world =
      (fst (query_cortex_search_service demo_platform ''etf'' demo_world),
       snd (query_cortex_search_service demo_platform ''etf'' demo_world))"
    by simp
  have found: "search_results demo_platform (calls demo_world) (selected_service ''etf'') ''etf''
      (num_retrieved_chunks (st demo_world))
      = Inr [[(''chunk'', ''first document'')], [(''chunk'', ''second document'')]]"
    by (simp add: demo_platform_def)
  have run_down: "query_cortex_search_service unreachable_platform ''etf'' demo_world =
      (fst (query_cortex_search_service unreachable_platform ''etf'' demo_world),
       snd (query_cortex_search_service unreachable_platform ''etf'' demo_world))"
    by simp
  have down: "search_results unreachable_platform (calls demo_world) (selected_service ''etf'')
      ''etf'' (num_retrieved_chunks (st demo_world)) = Inl ''service unavailable''"
    by (simp add: unreachable_platform_def)
  from query_not_found [OF md run] found stock_market_service_absent
  have a: "fst (query_cortex_search_service demo_platform ''etf'' demo_world)
       = Inl (ValueError (not_found_message (selected_service ''etf'')))"
    by blast
  from query_not_found [OF md run_down] down
  have b: "fst (query_cortex_search_service unreachable_platform ''etf'' demo_world)
       = Inl (PlatformError ''service unavailable'')"
    by blast
  from md a b show ?thesis by simp
qed

section \<open>Clearing the conversation\<close>

text \<open>
  C8. With the clear button clicked, \<open>init_messages\<close> replaces the log by the empty list and
  changes nothing else: the model, the two counts, the two toggles and the service metadata
  are as before. A question asked in that state is appended to an empty log, so the history
  read for it is empty: no summary is requested, the question itself is the retrieval
  query, and the only history text in the prompt is that of the empty list.
\<close>

theorem clear_conversation_frame:
  assumes "clear_conversation s"
  shows "init_messages s = s\<lparr>messages := Some []\<rparr>
    \<and> messages (init_messages s) = Some []
    \<and> model_name (init_messages s) = model_name s
    \<and> num_retrieved_chunks (init_messages s) = num_retrieved_chunks s
    \<and> num_chat_messages (init_messages s) = num_chat_messages s
    \<and> use_chat_history (init_messages s) = use_chat_history s
    \<and> debug (init_messages s) = debug s
    \<and> service_metadata (init_messages s) = service_metadata s
    \<and> (\<forall>p question w. st w = init_messages s \<longrightarrow>
          (\<exists>w1. append_message \<lparr>role = ''user'', content = question\<rparr> w = (Inr (), w1)
             \<and> get_chat_history (st w1) = Inr []
             \<and> create_prompt p (strip_apostrophes question) w1 =
                 (case query_cortex_search_service p (strip_apostrophes question) w1 of
                    (Inl e, w2) \<Rightarrow> (Inl e, w2)
                  | (Inr prompt_context, w2) \<Rightarrow>
                      (Inr (prompt_text (if use_chat_history s then ''[]'' else [])
                              prompt_context (strip_apostrophes question)), w2))))"
proof -
  have cleared: "init_messages s = s\<lparr>messages := Some []\<rparr>"
    using assms by (simp add: init_messages_def)
  have next_turn: "\<exists>w1. append_message \<lparr>role = ''user'', content = question\<rparr> w = (Inr (), w1)
             \<and> get_chat_history (st w1) = Inr []
             \<and> create_prompt p (strip_apostrophes question) w1 =
                 (case query_cortex_search_service p (strip_apostrophes question) w1 of
                    (Inl e, w2) \<Rightarrow> (Inl e, w2)
                  | (Inr prompt_context, w2) \<Rightarrow>
                      (Inr (prompt_text (if use_chat_history s then ''[]'' else [])
                              prompt_context (strip_apostrophes question)), w2))"
    if "st w = init_messages s" for p question w
  proof -
    let ?w1 = "w\<lparr>st := (st w)\<lparr>messages := Some [\<lparr>role = ''user'', content = question\<rparr>]\<rparr>\<rparr>"
    have a: "append_message \<lparr>role = ''user'', content = question\<rparr> w = (Inr (), ?w1)"
      using that cleared by (simp add: append_message_def)
    have h: "get_chat_history (st ?w1) = Inr []"
      by (simp add: get_chat_history_def py_slice_def Let_def)
    have u: "use_chat_history (st ?w1) = use_chat_history s"
      using that cleared by simp
    have c: "create_prompt p (strip_apostrophes question) ?w1 =
                 (case query_cortex_search_service p (strip_apostrophes question) ?w1 of
                    (Inl e, w2) \<Rightarrow> (Inl e, w2)
                  | (Inr prompt_context, w2) \<Rightarrow>
                      (Inr (prompt_text (if use_chat_history s then ''[]'' else [])
                              prompt_context (strip_apostrophes question)), w2))"
      unfolding create_prompt_def h u
      by (simp add: str_messages_def split: prod.splits sum.splits)
    from a h c show ?thesis by blast
  qed
  from cleared next_turn show ?thesis by simp
qed

theorem clear_conversation_frame_witness:
  "clear_conversation chatted_state
   \<and> messages chatted_state \<noteq> Some []
   \<and> messages (init_messages chatted_state) = Some []
   \<and> model_name (init_messages chatted_state) = ''mistral-large''
   \<and> service_metadata (init_messages chatted_state)
       = Some [\<lparr>name = ''PROSPECTUS_SERVICE'', search_column = ''chunk''\<rparr>]"
proof -
  have c: "clear_conversation chatted_state"
    by (simp add: chatted_state_def)
  from clear_conversation_frame [OF c] c show ?thesis
    by (simp add: chatted_state_def demo_state_def)
qed

section \<open>Discovery runs once\<close>

lemma init_service_metadata_populates:
  assumes "init_service_metadata p w = (Inr u, w')"
  shows "service_metadata (st w') \<noteq> None"
  using assms
  by (auto simp: init_service_metadata_def split: if_splits prod.splits sum.splits)

lemma first_discovery:
  "fst (init_service_metadata demo_platform fresh_world) = Inr ()"
  by (simp add: init_service_metadata_def fresh_world_def demo_state_def run_sql_def
      demo_platform_def row_get_def split: prod.splits)

text \<open>
  C9. With \<open>service_metadata\<close> already in the session state, \<open>init_service_metadata\<close> returns
  at once: the session state is unchanged and no request is sent to the platform. A run
  that returns has set the key, so a second run after it changes nothing.
\<close>

theorem init_service_metadata_idempotent:
  "(service_metadata (st w) \<noteq> None \<longrightarrow> init_service_metadata p w = (Inr (), w))
   \<and> (init_service_metadata p w = (Inr (), w') \<longrightarrow> init_service_metadata p w' = (Inr (), w'))"
proof -
  have once: "init_service_metadata p v = (Inr (), v)" if "service_metadata (st v) \<noteq> None" for v
    using that by (simp add: init_service_metadata_def)
  show ?thesis
    using once init_service_metadata_populates by blast
qed

theorem init_service_metadata_idempotent_witness:
  "init_service_metadata demo_platform demo_world = (Inr (), demo_world)
   \<and> service_metadata (st fresh_world) = None
   \<and> init_service_metadata demo_platform (snd (init_service_metadata demo_platform fresh_world))
       = (Inr (), snd (init_service_metadata demo_platform fresh_world))"
proof -
  have populated: "service_metadata (st demo_world) \<noteq> None"
    by (simp add: demo_world_def demo_state_def)
  have fresh: "service_metadata (st fresh_world) = None"
    by (simp add: fresh_world_def)
  have first: "init_service_metadata demo_platform fresh_world =
      (Inr (), snd (init_service_metadata demo_platform fresh_world))"
    using first_discovery by (metis prod.collapse)
  from init_service_metadata_idempotent [of demo_world demo_platform]
       init_service_metadata_idempotent [of fresh_world demo_platform "snd (init_service_metadata demo_platform fresh_world)"]
       populated fresh first
  show ?thesis by blast
qed

section \<open>The history window\<close>

text \<open>
  With the question already appended and a window of \<open>N \<ge> 1\<close>, \<open>get_chat_history\<close> returns
  the last \<open>N - 1\<close> of the earlier messages (all of them when there are fewer): the slice
  starts \<open>N\<close> from the end of a log that holds the question and stops before the question.
\<close>

lemma get_chat_history_window:
  assumes "messages s = Some (prior @ [q])" and "1 \<le> num_chat_messages s"
  shows "get_chat_history s =
           Inr (drop (Suc (length prior) - nat (num_chat_messages s)) prior)"
proof -
  define n where "n = int (length (prior @ [q]))"
  define start where "start = max 0 (n - num_chat_messages s)"
  have n: "n = int (length prior) + 1"
    by (simp add: n_def)
  have le: "start \<le> int (length prior)" and ge: "0 \<le> start"
    using assms(2) by (auto simp: start_def n)
  have st: "nat start = Suc (length prior) - nat (num_chat_messages s)"
    using assms(2) by (auto simp: start_def n)
  have "py_slice (prior @ [q]) start (n - 1) = drop (nat start) prior"
    using le ge by (simp add: py_slice_def Let_def min_def n)
  moreover have "get_chat_history s = Inr (py_slice (prior @ [q]) start (n - 1))"
    by (simp only: get_chat_history_def Let_def start_def n_def assms(1) option.case)
  ultimately show ?thesis
    using st by simp
qed

lemma get_chat_history_length:
  assumes "messages s = Some (prior @ [q])" and "1 \<le> num_chat_messages s"
    and "get_chat_history s = Inr hist"
  shows "length hist = min (length prior) (nat (num_chat_messages s) - 1)"
  using get_chat_history_window [OF assms(1,2)] assms(2,3) by auto


section \<open>When the summary is requested\<close>






section \<open>The question in the prompt\<close>










section \<open>The question's text over a turn\<close>




section \<open>The sections of the prompt\<close>



















end
